theory Spec2Isabelle
  imports Main "HOL-Library.AList" "HOL-Library.Char_ord" "HOL-Library.List_Lexorder"
begin

section \<open>Values, exceptions and dictionaries\<close>

text \<open>
  The program (\<^verbatim>\<open>preprocess.py\<close>) handles values read by \<^verbatim>\<open>json.load\<close> and values parsed
  from completion responses. Both are untyped JSON: the code never checks a shape, so the
  model keeps every shape. A Python \<^verbatim>\<open>str\<close> is a list of characters (\<^verbatim>\<open>len\<close>, slicing and
  \<^verbatim>\<open>count\<close> are the list operations, one character per code point); a Python \<^verbatim>\<open>dict\<close>
  is an association list in insertion order. Numbers are integers: the program never
  computes with a number it has read.
\<close>

datatype json =
    JNull
  | JBool bool
  | JNum int
  | JStr string
  | JArr "json list"
  | JObj "(string \<times> json) list"

type_synonym dict = "(string \<times> json) list"

text \<open>
  The exception classes that occur. All of them derive from Python's \<^verbatim>\<open>Exception\<close>, which
  is what a completion call, a parser and the file operations raise; \<open>Other_exception\<close>
  stands for any further such class. Signals that derive from \<^verbatim>\<open>BaseException\<close> alone
  (an interrupt from the keyboard, interpreter exit) are not raised by these calls and are
  not part of the model.
\<close>

datatype exn =
    UnicodeDecodeError
  | JSONDecodeError
  | OutputParserException
  | FileNotFoundError
  | TypeError
  | AttributeError
  | KeyError
  | Other_exception nat

text \<open>\<^verbatim>\<open>d.get(k, default)\<close>, \<^verbatim>\<open>d[k] = v\<close> and \<^verbatim>\<open>{**d, **m}\<close> on dictionaries.\<close>

definition dict_get :: "dict \<Rightarrow> string \<Rightarrow> json \<Rightarrow> json" where
  "dict_get d k dflt = (case map_of d k of None \<Rightarrow> dflt | Some v \<Rightarrow> v)"

definition dict_set :: "dict \<Rightarrow> string \<Rightarrow> json \<Rightarrow> dict" where
  "dict_set d k v = AList.update k v d"

definition dict_merge :: "dict \<Rightarrow> dict \<Rightarrow> dict" where
  "dict_merge d m = fold (\<lambda>(k, v) acc. dict_set acc k v) m d"

text \<open>
  \<^verbatim>\<open>{**post, **metadata}\<close>: the right operand of \<^verbatim>\<open>**\<close> must be a mapping, anything else
  raises \<^verbatim>\<open>TypeError\<close>.
\<close>

definition unpack_merge :: "dict \<Rightarrow> json \<Rightarrow> exn + dict" where
  "unpack_merge post metadata =
     (case metadata of JObj m \<Rightarrow> Inr (dict_merge post m) | _ \<Rightarrow> Inl TypeError)"

text \<open>
  Iterating a value (\<^verbatim>\<open>for tag in v\<close>, \<^verbatim>\<open>set.update(v)\<close>): a list gives its elements, a
  string its characters as one-character strings, a dictionary its keys; the other values
  are not iterable.
\<close>

fun py_iter :: "json \<Rightarrow> exn + json list" where
  "py_iter (JArr xs) = Inr xs"
| "py_iter (JStr s) = Inr (map (\<lambda>c. JStr [c]) s)"
| "py_iter (JObj kvs) = Inr (map (\<lambda>kv. JStr (fst kv)) kvs)"
| "py_iter JNull = Inl TypeError"
| "py_iter (JBool b) = Inl TypeError"
| "py_iter (JNum n) = Inl TypeError"

text \<open>Lists and dictionaries are unhashable: they are neither set members nor keys.\<close>

fun hashable :: "json \<Rightarrow> bool" where
  "hashable (JArr xs) = False"
| "hashable (JObj kvs) = False"
| "hashable v = True"

fun str_of :: "json \<Rightarrow> string option" where
  "str_of (JStr s) = Some s"
| "str_of v = None"

text \<open>\<^verbatim>\<open>sep.join(strings)\<close>\<close>

fun join :: "string \<Rightarrow> string list \<Rightarrow> string" where
  "join sep [] = []"
| "join sep [s] = s"
| "join sep (s # t # ss) = s @ sep @ join sep (t # ss)"

section \<open>The prompt templates\<close>

text \<open>
  The two templates of \<^verbatim>\<open>preprocess.py\<close> (lines 51 to 60 and 92 to 105), line by line.
  \<open>quoted s\<close> is \<open>s\<close> between double quotes; the arrow of lines 95 to 98, a character
  beyond the character type, is written \<open>->\<close>.
\<close>

definition quoted :: "string \<Rightarrow> string" where
  "quoted s = [CHR 0x22] @ s @ [CHR 0x22]"

definition metadata_template :: string where
  "metadata_template =
     join [CHR 0x0A]
       ['''',
        ''    You are given a LinkedIn post. You need to extract number of lines, language of the post and tags.'',
        ''    1. Return a valid JSON. No preamble. '',
        ''    2. JSON object should have exactly three keys: line_count, language and tags. '',
        ''    3. tags is an array of text tags. Extract maximum two tags.'',
        ''    4. Language should be English or Hinglish (Hinglish means Hindi + English)'',
        ''    '',
        ''    Here is the actual post on which you need to perform this task:  '',
        ''    {post}'',
        ''    '']"

definition unify_template :: string where
  "unify_template =
     join [CHR 0x0A]
       ['''',
        ''    I will give you a list of tags. You need to unify tags with the following requirements:'',
        ''    1. Tags are unified and merged to create a shorter list.'',
        ''       Example 1: '' @ quoted ''Jobseekers'' @ '', '' @ quoted ''Job Hunting'' @ '' -> '' @ quoted ''Job Search'',
        ''       Example 2: '' @ quoted ''Motivation'' @ '', '' @ quoted ''Inspiration'' @ '' -> '' @ quoted ''Motivation'',
        ''       Example 3: '' @ quoted ''Personal Growth'' @ '', '' @ quoted ''Self Improvement'' @ '' -> '' @ quoted ''Self Improvement'',
        ''       Example 4: '' @ quoted ''Scam Alert'' @ '', '' @ quoted ''Job Scam'' @ '' -> '' @ quoted ''Scams'',
        ''    2. Use title case. Example: '' @ quoted ''Job Search'' @ '', '' @ quoted ''Motivation'',
        ''    3. Output must be a JSON object. No preamble.'',
        ''    4. Format: {'' @ quoted ''OldTag1'' @ '': '' @ quoted ''UnifiedTag'' @ '', '' @ quoted ''OldTag2'' @ '': '' @ quoted ''UnifiedTag'' @ '', ...}'',
        '''',
        ''    Here is the list of tags:'',
        ''    {tags}'',
        ''    '']"

text \<open>
  \<^verbatim>\<open>PromptTemplate.from_template\<close> reads a template as a Python format string: every
  \<^verbatim>\<open>{...}\<close> is a replacement field, and the text of the field up to its first \<^verbatim>\<open>:\<close> or
  \<^verbatim>\<open>!\<close> is the name of a variable of the template. (The two templates have no doubled
  and no unmatched brace, which the scan below does not treat.) \<open>scan_fields\<close> goes
  through the template with the field it is in, if any.
\<close>

fun field_name :: "string \<Rightarrow> string" where
  "field_name [] = []"
| "field_name (c # cs) = (if c = CHR '':'' \<or> c = CHR ''!'' then [] else c # field_name cs)"

fun scan_fields :: "string option \<Rightarrow> string \<Rightarrow> string list" where
  "scan_fields None [] = []"
| "scan_fields (Some f) [] = []"
| "scan_fields None (c # cs) =
     (if c = CHR ''{'' then scan_fields (Some []) cs else scan_fields None cs)"
| "scan_fields (Some f) (c # cs) =
     (if c = CHR ''}'' then field_name f # scan_fields None cs
      else scan_fields (Some (f @ [c])) cs)"

definition template_variables :: "string \<Rightarrow> string list" where
  "template_variables template = scan_fields None template"

text \<open>
  Invoking a prompt template with a dictionary that lacks one of the template's variables
  raises \<^verbatim>\<open>KeyError\<close>: these are the variables that \<open>given\<close> lacks.
\<close>

definition missing_variables :: "string \<Rightarrow> string list \<Rightarrow> string list" where
  "missing_variables template given =
     filter (\<lambda>v. v \<notin> set given) (template_variables template)"

section \<open>The collaborators and the world\<close>

text \<open>
  A chain is a template piped into the model, and \<^verbatim>\<open>chain.invoke\<close> receives a dictionary
  with one variable: \<^verbatim>\<open>post\<close> for the chain of the metadata template, \<^verbatim>\<open>tags\<close> for the
  chain of the unification template. A prompt is the template with the value of that
  variable.
\<close>

datatype prompt = Metadata_prompt string | Unify_prompt string

definition template_of :: "prompt \<Rightarrow> string" where
  "template_of p =
     (case p of Metadata_prompt post \<Rightarrow> metadata_template | Unify_prompt tags \<Rightarrow> unify_template)"

definition given_variables :: "prompt \<Rightarrow> string list" where
  "given_variables p =
     (case p of Metadata_prompt post \<Rightarrow> [''post''] | Unify_prompt tags \<Rightarrow> [''tags''])"

text \<open>What the program prints.\<close>

datatype message =
    Unicode_decode_error
  | JSON_decode_error
  | Failed_to_parse_metadata string
  | Unexpected_error_extracting_metadata
  | Failed_to_unify_tags
  | Unexpected_error_unifying_tags
  | Successfully_saved nat
  | Error_saving exn

text \<open>
  The code outside the repository is a parameter of the model: the completion service
  behind the chain (\<open>invoke\<close>, with a state of its own, so that two calls with one prompt may
  answer differently; it returns the response content or raises), \<^verbatim>\<open>JsonOutputParser.parse\<close>
  (returns any JSON value or raises), \<^verbatim>\<open>ftfy.fix_text\<close> (a function from strings to
  strings) and the writing of the output file (\<^verbatim>\<open>open\<close> and \<^verbatim>\<open>json.dump\<close>: \<open>None\<close> when the
  file was written, the exception otherwise).
\<close>

record 's env =
  invoke :: "prompt \<Rightarrow> 's \<Rightarrow> (exn + string) \<times> 's"
  json_parse :: "string \<Rightarrow> exn + json"
  fix_text :: "string \<Rightarrow> string"
  json_dump :: "dict list \<Rightarrow> exn option"

text \<open>
  The world the program acts on: the service's state, the calls that reached the service
  so far (oldest first), the messages printed so far and the content of the output file,
  if written.
\<close>

record 's world =
  llm_state :: 's
  calls :: "prompt list"
  printed :: "message list"
  out_file :: "dict list option"

definition print :: "message \<Rightarrow> 's world \<Rightarrow> 's world" where
  "print m w = w\<lparr>printed := printed w @ [m]\<rparr>"

text \<open>
  \<^verbatim>\<open>chain.invoke\<close>: first the template is filled in, which raises when a variable is
  missing; only then is the service called.
\<close>

definition chain_invoke :: "'s env \<Rightarrow> prompt \<Rightarrow> 's world \<Rightarrow> (exn + string) \<times> 's world" where
  "chain_invoke E p w =
     (if missing_variables (template_of p) (given_variables p) \<noteq> [] then (Inl KeyError, w)
      else case invoke E p (llm_state w) of
             (r, s') \<Rightarrow> (r, w\<lparr>llm_state := s', calls := calls w @ [p]\<rparr>))"

text \<open>
  The body of both \<^verbatim>\<open>try\<close> blocks:
  \<^verbatim>\<open>response = chain.invoke(...); return json_parser.parse(response.content)\<close>.
\<close>

definition complete :: "'s env \<Rightarrow> prompt \<Rightarrow> 's world \<Rightarrow> (exn + json) \<times> 's world" where
  "complete E p w =
     (case chain_invoke E p w of
        (Inl e, w') \<Rightarrow> (Inl e, w')
      | (Inr content, w') \<Rightarrow> (json_parse E content, w'))"

section \<open>extract_metadata\<close>

definition MAX_LENGTH :: nat where
  "MAX_LENGTH = 2000"

text \<open>
  \<^verbatim>\<open>if len(post) > MAX_LENGTH: post = post[:MAX_LENGTH] + "..."\<close>. The assignment
  replaces the parameter: the rest of the function sees the truncated text only.
\<close>

definition truncate_post :: "string \<Rightarrow> string" where
  "truncate_post post = (if length post > MAX_LENGTH then take MAX_LENGTH post @ ''...'' else post)"

text \<open>\<^verbatim>\<open>post.count('\n')\<close>.\<close>

definition count_newlines :: "string \<Rightarrow> nat" where
  "count_newlines post = count_list post (CHR 0x0A)"

definition fallback_record :: "string \<Rightarrow> json" where
  "fallback_record post =
     JObj [(''line_count'', JNum (int (count_newlines post + 1))),
           (''language'', JStr ''Unknown''),
           (''tags'', JArr [])]"

definition extract_metadata :: "'s env \<Rightarrow> string \<Rightarrow> 's world \<Rightarrow> (exn + json) \<times> 's world" where
  "extract_metadata E text w =
     (let post = truncate_post text in
      case complete E (Metadata_prompt post) w of
        (Inr v, w') \<Rightarrow> (Inr v, w')
      | (Inl e, w') \<Rightarrow>
          (if e = OutputParserException
           then (Inr (fallback_record post), print (Failed_to_parse_metadata (take 200 post)) w')
           else (Inr (fallback_record post), print Unexpected_error_extracting_metadata w')))"

section \<open>get_unified_tags\<close>

text \<open>
  \<^verbatim>\<open>unique_tags.update(items)\<close>: the set is kept as a list without duplicates. An unhashable
  item raises \<^verbatim>\<open>TypeError\<close>.
\<close>

fun set_update :: "json list \<Rightarrow> json list \<Rightarrow> exn + json list" where
  "set_update acc [] = Inr acc"
| "set_update acc (x # xs) =
     (if hashable x then set_update (List.insert x acc) xs else Inl TypeError)"

text \<open>
  \<^verbatim>\<open>for post in posts_with_metadata: unique_tags.update(post.get('tags', []))\<close>
\<close>

fun collect_tags :: "dict list \<Rightarrow> json list \<Rightarrow> exn + json list" where
  "collect_tags [] acc = Inr acc"
| "collect_tags (post # posts) acc =
     (case py_iter (dict_get post ''tags'' (JArr [])) of
        Inl e \<Rightarrow> Inl e
      | Inr items \<Rightarrow>
          (case set_update acc items of
             Inl e \<Rightarrow> Inl e
           | Inr acc' \<Rightarrow> collect_tags posts acc'))"

text \<open>
  \<^verbatim>\<open>', '.join(sorted(unique_tags))\<close>. \<^verbatim>\<open>join\<close> accepts strings only, so a set with any
  other member ends in \<^verbatim>\<open>TypeError\<close> (raised by \<^verbatim>\<open>sorted\<close> when the members do not compare,
  by \<^verbatim>\<open>join\<close> otherwise), whichever members Python's set holds to be equal. Strings compare
  lexicographically by character code.
\<close>

fun those_strs :: "json list \<Rightarrow> string list option" where
  "those_strs [] = Some []"
| "those_strs (x # xs) =
     (case str_of x of
        None \<Rightarrow> None
      | Some s \<Rightarrow> (case those_strs xs of None \<Rightarrow> None | Some ss \<Rightarrow> Some (s # ss)))"

text \<open>
  The statements before the \<^verbatim>\<open>try\<close>: the distinct tags and the text handed to the chain.
\<close>

definition unique_tags_list :: "dict list \<Rightarrow> exn + (string list \<times> string)" where
  "unique_tags_list posts =
     (case collect_tags posts [] of
        Inl e \<Rightarrow> Inl e
      | Inr unique_tags \<Rightarrow>
          (case those_strs unique_tags of
             None \<Rightarrow> Inl TypeError
           | Some tags \<Rightarrow> Inr (tags, join '', '' (sort tags))))"

text \<open>
  \<^verbatim>\<open>{tag: tag for tag in unique_tags}\<close>. Python does not fix the order in which a set is
  iterated; the program only looks keys up in the result.
\<close>

definition identity_mapping :: "string list \<Rightarrow> json" where
  "identity_mapping tags = JObj (map (\<lambda>tag. (tag, JStr tag)) tags)"

definition get_unified_tags :: "'s env \<Rightarrow> dict list \<Rightarrow> 's world \<Rightarrow> (exn + json) \<times> 's world" where
  "get_unified_tags E posts_with_metadata w =
     (case unique_tags_list posts_with_metadata of
        Inl e \<Rightarrow> (Inl e, w)
      | Inr (unique_tags, tags) \<Rightarrow>
          (case complete E (Unify_prompt tags) w of
             (Inr v, w') \<Rightarrow> (Inr v, w')
           | (Inl e, w') \<Rightarrow>
               (if e = OutputParserException
                then (Inr (identity_mapping unique_tags), print Failed_to_unify_tags w')
                else (Inr (identity_mapping unique_tags), print Unexpected_error_unifying_tags w'))))"

section \<open>process_posts\<close>

text \<open>
  \<^verbatim>\<open>fix_text(post['text'])\<close>. On a string it is the repair. On another value the
  library's loop, \<^verbatim>\<open>while pos < len(text): textbreak = text.find(...)\<close>, decides: a value
  without a length raises \<^verbatim>\<open>TypeError\<close>, an empty list or dictionary gives the empty
  string, and any other list or dictionary raises \<^verbatim>\<open>AttributeError\<close>.
\<close>

fun fix_text_value :: "'s env \<Rightarrow> json \<Rightarrow> exn + string" where
  "fix_text_value E (JStr s) = Inr (fix_text E s)"
| "fix_text_value E (JArr xs) = (if xs = [] then Inr [] else Inl AttributeError)"
| "fix_text_value E (JObj kvs) = (if kvs = [] then Inr [] else Inl AttributeError)"
| "fix_text_value E JNull = Inl TypeError"
| "fix_text_value E (JBool b) = Inl TypeError"
| "fix_text_value E (JNum n) = Inl TypeError"

text \<open>The first loop. A post is a dictionary.\<close>

fun enrich_loop ::
  "'s env \<Rightarrow> dict list \<Rightarrow> dict list \<Rightarrow> 's world \<Rightarrow> (exn + dict list) \<times> 's world" where
  "enrich_loop E [] enriched_posts w = (Inr enriched_posts, w)"
| "enrich_loop E (post # posts) enriched_posts w =
     (case map_of post ''text'' of
        None \<Rightarrow> enrich_loop E posts enriched_posts w
      | Some t \<Rightarrow>
          (case fix_text_value E t of
             Inl e \<Rightarrow> (Inl e, w)
           | Inr s \<Rightarrow>
               (let post1 = dict_set post ''text'' (JStr s) in
                case extract_metadata E s w of
                  (Inl e, w') \<Rightarrow> (Inl e, w')
                | (Inr metadata, w') \<Rightarrow>
                    (case unpack_merge post1 metadata of
                       Inl e \<Rightarrow> (Inl e, w')
                     | Inr post_with_metadata \<Rightarrow>
                         enrich_loop E posts (enriched_posts @ [post_with_metadata]) w'))))"

text \<open>
  \<^verbatim>\<open>unified_tags.get(tag, tag)\<close>: only a dictionary has \<^verbatim>\<open>get\<close>; the key must be hashable;
  the keys of a parsed JSON object are strings, so a key of another type is never found.
\<close>

definition unified_get :: "json \<Rightarrow> json \<Rightarrow> exn + json" where
  "unified_get unified_tags tag =
     (case unified_tags of
        JObj m \<Rightarrow>
          (if hashable tag
           then Inr (case str_of tag of
                       None \<Rightarrow> tag
                     | Some t \<Rightarrow> (case map_of m t of None \<Rightarrow> tag | Some v \<Rightarrow> v))
           else Inl TypeError)
      | _ \<Rightarrow> Inl AttributeError)"

fun map_exn :: "('a \<Rightarrow> exn + 'b) \<Rightarrow> 'a list \<Rightarrow> exn + 'b list" where
  "map_exn f [] = Inr []"
| "map_exn f (x # xs) =
     (case f x of
        Inl e \<Rightarrow> Inl e
      | Inr y \<Rightarrow> (case map_exn f xs of Inl e \<Rightarrow> Inl e | Inr ys \<Rightarrow> Inr (y # ys)))"

text \<open>
  The body of the second loop:
  \<^verbatim>\<open>current_tags = post.get('tags', [])\<close>,
  \<^verbatim>\<open>post['tags'] = [unified_tags.get(tag, tag) for tag in current_tags]\<close>.
\<close>

definition rewrite_tags :: "json \<Rightarrow> dict \<Rightarrow> exn + dict" where
  "rewrite_tags unified_tags post =
     (case py_iter (dict_get post ''tags'' (JArr [])) of
        Inl e \<Rightarrow> Inl e
      | Inr current_tags \<Rightarrow>
          (case map_exn (unified_get unified_tags) current_tags of
             Inl e \<Rightarrow> Inl e
           | Inr new_tags \<Rightarrow> Inr (dict_set post ''tags'' (JArr new_tags))))"

text \<open>
  What \<^verbatim>\<open>open\<close> and \<^verbatim>\<open>json.load\<close> did with the raw file: the batch, or the exception raised.
\<close>

datatype load_result = Loaded "dict list" | Load_raises exn

text \<open>
  Lines 21 to 36 of \<open>process_posts\<close>, from the first loop to the end of the second: the
  value of \<^verbatim>\<open>enriched_posts\<close> when the function reaches \<^verbatim>\<open>json.dump\<close>, or the exception
  that escaped before.
\<close>

definition enriched_posts :: "'s env \<Rightarrow> dict list \<Rightarrow> 's world \<Rightarrow> (exn + dict list) \<times> 's world" where
  "enriched_posts E posts w =
     (case enrich_loop E posts [] w of
        (Inl e, w1) \<Rightarrow> (Inl e, w1)
      | (Inr enriched, w1) \<Rightarrow>
          (case get_unified_tags E enriched w1 of
             (Inl e, w2) \<Rightarrow> (Inl e, w2)
           | (Inr unified_tags, w2) \<Rightarrow>
               (case map_exn (rewrite_tags unified_tags) enriched of
                  Inl e \<Rightarrow> (Inl e, w2)
                | Inr final_posts \<Rightarrow> (Inr final_posts, w2))))"

text \<open>
  \<open>process_posts\<close> returns \<^verbatim>\<open>None\<close> (\<open>Inr ()\<close>) or lets an exception escape (\<open>Inl\<close>); what it
  did is in the world. What a failed write leaves on disk is not modelled: \<open>out_file\<close> changes
  only when the write succeeds.
\<close>

definition process_posts :: "'s env \<Rightarrow> load_result \<Rightarrow> 's world \<Rightarrow> (exn + unit) \<times> 's world" where
  "process_posts E raw_file w =
     (case raw_file of
        Load_raises e \<Rightarrow>
          (if e = UnicodeDecodeError then (Inr (), print Unicode_decode_error w)
           else if e = JSONDecodeError then (Inr (), print JSON_decode_error w)
           else (Inl e, w))
      | Loaded posts \<Rightarrow>
          (case enriched_posts E posts w of
             (Inl e, w') \<Rightarrow> (Inl e, w')
           | (Inr final_posts, w') \<Rightarrow>
               (case json_dump E final_posts of
                  None \<Rightarrow>
                    (Inr (),
                     print (Successfully_saved (length final_posts))
                       (w'\<lparr>out_file := Some final_posts\<rparr>))
                | Some e \<Rightarrow> (Inr (), print (Error_saving e) w'))))"

section \<open>Test doubles\<close>

text \<open>
  A service without state that answers by a fixed function of the prompt, a parser that
  is a table from response contents to values (a content not in the table does not parse),
  no text repair and a file system that accepts every write; and a world in which nothing
  has happened yet.
\<close>

definition stub_env :: "(prompt \<Rightarrow> exn + string) \<Rightarrow> (string \<times> json) list \<Rightarrow> unit env" where
  "stub_env reply table =
     \<lparr>invoke = (\<lambda>p s. (reply p, s)),
      json_parse = (\<lambda>c. case map_of table c of None \<Rightarrow> Inl OutputParserException | Some v \<Rightarrow> Inr v),
      fix_text = (\<lambda>s. s),
      json_dump = (\<lambda>posts. None)\<rparr>"

text \<open>
  Replies: the same content for every metadata prompt and another for every unification
  prompt; the post itself as the content (so that the table decides per post); a service
  that is down. A service's reply to a unification prompt is there for the asking, and
  the chain of the program never asks.
\<close>

definition canned :: "string \<Rightarrow> string \<Rightarrow> prompt \<Rightarrow> exn + string" where
  "canned m u p = (case p of Metadata_prompt post \<Rightarrow> Inr m | Unify_prompt tags \<Rightarrow> Inr u)"

definition echo :: "string \<Rightarrow> prompt \<Rightarrow> exn + string" where
  "echo u p = (case p of Metadata_prompt post \<Rightarrow> Inr post | Unify_prompt tags \<Rightarrow> Inr u)"

definition down :: "prompt \<Rightarrow> exn + string" where
  "down p = Inl (Other_exception 0)"

text \<open>
  A service that counts the calls that reach it and answers each with the same content,
  which parses to an empty object.
\<close>

definition counting_env :: "nat env" where
  "counting_env =
     \<lparr>invoke = (\<lambda>p n. (Inr ''{}'', Suc n)),
      json_parse = (\<lambda>c. Inr (JObj [])),
      fix_text = (\<lambda>s. s),
      json_dump = (\<lambda>posts. None)\<rparr>"

definition world0 :: "unit world" where
  "world0 = \<lparr>llm_state = (), calls = [], printed = [], out_file = None\<rparr>"

section \<open>Vocabulary of the properties\<close>

text \<open>A parsed value is a JSON object, or it is not.\<close>

definition is_object :: "json \<Rightarrow> bool" where
  "is_object v = (case v of JObj m \<Rightarrow> True | _ \<Rightarrow> False)"




text \<open>
  The tags sequence of a post: what iterating \<^verbatim>\<open>post.get('tags', [])\<close> yields (nothing
  where the value is not iterable). \<open>string_tags\<close>: the value is iterable and every item
  is a string.
\<close>

definition tags_of :: "dict \<Rightarrow> json list" where
  "tags_of post =
     (case py_iter (dict_get post ''tags'' (JArr [])) of Inl e \<Rightarrow> [] | Inr items \<Rightarrow> items)"

definition string_tags :: "dict \<Rightarrow> bool" where
  "string_tags post =
     (case py_iter (dict_get post ''tags'' (JArr [])) of
        Inl e \<Rightarrow> False
      | Inr items \<Rightarrow> list_all (\<lambda>x. str_of x \<noteq> None) items)"

text \<open>The entry of a tag in a mapping, the tag itself where the mapping has none.\<close>

definition lookup_or_self :: "dict \<Rightarrow> json \<Rightarrow> json" where
  "lookup_or_self m tag =
     (case str_of tag of
        None \<Rightarrow> tag
      | Some t \<Rightarrow> (case map_of m t of None \<Rightarrow> tag | Some v \<Rightarrow> v))"

section \<open>The variables of the two templates\<close>

lemma metadata_template_variables: "template_variables metadata_template = [''post'']"
  by code_simp

lemma unify_template_variables:
  "template_variables unify_template = [quoted ''OldTag1'', ''tags'']"
  by code_simp

text \<open>
  The metadata chain is given its one variable, so its call reaches the service. The
  unification template has a second variable, the text between the braces of its line
  \<^verbatim>\<open>4. Format: {...}\<close> up to the colon, and the chain is given \<^verbatim>\<open>tags\<close> alone: filling the
  template in raises, and the service is not reached.
\<close>

lemma chain_invoke_Metadata:
  "chain_invoke E (Metadata_prompt post) w =
     (case invoke E (Metadata_prompt post) (llm_state w) of
        (r, s') \<Rightarrow> (r, w\<lparr>llm_state := s', calls := calls w @ [Metadata_prompt post]\<rparr>))"
  by (simp add: chain_invoke_def missing_variables_def template_of_def given_variables_def
        metadata_template_variables)

lemma chain_invoke_Unify: "chain_invoke E (Unify_prompt tags) w = (Inl KeyError, w)"
  by (simp add: chain_invoke_def missing_variables_def template_of_def given_variables_def
        unify_template_variables quoted_def)

lemma complete_Unify: "complete E (Unify_prompt tags) w = (Inl KeyError, w)"
  by (simp add: complete_def chain_invoke_Unify)

section \<open>Facts about the world\<close>

lemma calls_print [simp]: "calls (print m w) = calls w"
  by (simp add: print_def)

lemma out_file_print [simp]: "out_file (print m w) = out_file w"
  by (simp add: print_def)

lemma llm_state_print [simp]: "llm_state (print m w) = llm_state w"
  by (simp add: print_def)

lemma out_file_complete: "out_file (snd (complete E p w)) = out_file w"
  by (simp add: complete_def chain_invoke_def split: prod.splits sum.splits)

section \<open>extract_metadata: the fallback\<close>

lemma extract_metadata_fst:
  "fst (extract_metadata E text w) =
     Inr (case fst (complete E (Metadata_prompt (truncate_post text)) w) of
            Inl e \<Rightarrow> fallback_record (truncate_post text)
          | Inr v \<Rightarrow> v)"
  by (cases "complete E (Metadata_prompt (truncate_post text)) w")
     (simp add: extract_metadata_def Let_def split: sum.splits)

lemma count_newlines_truncate_post:
  "count_newlines (truncate_post text) = count_newlines (take MAX_LENGTH text)"
  by (simp add: truncate_post_def count_newlines_def)

section \<open>The first loop\<close>

lemma out_file_extract_metadata: "out_file (snd (extract_metadata E text w)) = out_file w"
  using out_file_complete [of E "Metadata_prompt (truncate_post text)" w]
  by (cases "complete E (Metadata_prompt (truncate_post text)) w")
     (simp add: extract_metadata_def Let_def split: sum.splits)

lemma enrich_loop_append:
  "enrich_loop E (pre @ rest) acc w =
     (case enrich_loop E pre acc w of
        (Inl e, w') \<Rightarrow> (Inl e, w')
      | (Inr acc', w') \<Rightarrow> enrich_loop E rest acc' w')"
proof (induction pre arbitrary: acc w)
  case Nil
  show ?case by simp
next
  case (Cons post pre)
  show ?case
    by (simp add: Cons.IH Let_def split: option.splits sum.splits prod.splits)
qed

lemma out_file_enrich_loop: "out_file (snd (enrich_loop E posts acc w)) = out_file w"
proof (induction posts arbitrary: acc w)
  case Nil
  show ?case by simp
next
  case (Cons post posts)
  show ?case
  proof (cases "map_of post ''text''")
    case None
    then show ?thesis by (simp add: Cons.IH)
  next
    case (Some t)
    show ?thesis
    proof (cases "fix_text_value E t")
      case (Inl e)
      with Some show ?thesis by simp
    next
      case (Inr s)
      obtain r w' where x: "extract_metadata E s w = (r, w')"
        by (cases "extract_metadata E s w")
      with out_file_extract_metadata [of E s w]
      have o: "out_file w' = out_file w" by simp
      from Some Inr x o show ?thesis
        by (simp add: Cons.IH Let_def split: sum.splits)
    qed
  qed
qed

lemma unpack_merge_not_object: "\<not> is_object v \<Longrightarrow> unpack_merge post v = Inl TypeError"
  by (cases v) (simp_all add: unpack_merge_def is_object_def)

section \<open>Collecting the tags\<close>

lemma set_update_Inr:
  "set_update acc items = Inr acc' \<Longrightarrow>
     set acc' = set acc \<union> set items \<and> (\<forall>x\<in>set items. hashable x)"
  by (induction items arbitrary: acc) (auto split: if_splits)

lemma set_update_Inl: "set_update acc items = Inl e \<Longrightarrow> e = TypeError"
  by (induction items arbitrary: acc) (auto split: if_splits)

lemma set_update_hashable:
  "\<forall>x\<in>set items. hashable x \<Longrightarrow> \<exists>acc'. set_update acc items = Inr acc'"
  by (induction items arbitrary: acc) auto

lemma py_iter_Inl: "py_iter v = Inl e \<Longrightarrow> e = TypeError"
  by (cases v) simp_all

lemma collect_tags_Inl: "collect_tags posts acc = Inl e \<Longrightarrow> e = TypeError"
  by (induction posts arbitrary: acc)
     (auto split: sum.splits dest: py_iter_Inl set_update_Inl)

lemma collect_tags_Inr:
  "collect_tags posts acc = Inr acc' \<Longrightarrow>
     set acc' = set acc \<union> (\<Union>post\<in>set posts. set (tags_of post)) \<and>
     (\<forall>post\<in>set posts. py_iter (dict_get post ''tags'' (JArr [])) = Inr (tags_of post))"
proof (induction posts arbitrary: acc)
  case Nil
  then show ?case by simp
next
  case (Cons post posts)
  from Cons.prems obtain items acc1 where
    i: "py_iter (dict_get post ''tags'' (JArr [])) = Inr items" and
    u: "set_update acc items = Inr acc1" and
    c: "collect_tags posts acc1 = Inr acc'"
    by (auto split: sum.splits)
  from i have t: "tags_of post = items" by (simp add: tags_of_def)
  from set_update_Inr [OF u] have "set acc1 = set acc \<union> set items" by simp
  with Cons.IH [OF c] i t show ?case by auto
qed

lemma str_of_hashable: "str_of x \<noteq> None \<Longrightarrow> hashable x"
  by (cases x) simp_all

lemma those_strs_Some: "those_strs xs = Some ss \<Longrightarrow> xs = map JStr ss"
proof (induction xs arbitrary: ss)
  case Nil
  then show ?case by simp
next
  case (Cons x xs)
  then show ?case by (cases x) (auto split: option.splits)
qed

lemma those_strs_map: "those_strs (map JStr ss) = Some ss"
  by (induction ss) simp_all

lemma those_strs_all: "\<forall>x\<in>set xs. str_of x \<noteq> None \<Longrightarrow> \<exists>ss. those_strs xs = Some ss"
  by (induction xs) auto

lemma collect_tags_strings:
  "list_all string_tags posts \<Longrightarrow> \<exists>acc'. collect_tags posts acc = Inr acc'"
proof (induction posts arbitrary: acc)
  case Nil
  show ?case by simp
next
  case (Cons post posts)
  from Cons.prems obtain items where
    i: "py_iter (dict_get post ''tags'' (JArr [])) = Inr items" and
    s: "\<forall>x\<in>set items. str_of x \<noteq> None"
    by (auto simp: string_tags_def list_all_iff split: sum.splits)
  from s have "\<forall>x\<in>set items. hashable x" by (blast intro: str_of_hashable)
  from set_update_hashable [OF this] obtain acc1 where "set_update acc items = Inr acc1" by blast
  moreover from Cons.prems have "list_all string_tags posts" by simp
  from Cons.IH [OF this] obtain acc' where "collect_tags posts acc1 = Inr acc'" by blast
  ultimately show ?case using i by simp
qed

lemma unique_tags_list_Inr:
  assumes "unique_tags_list posts = Inr (tags, joined)"
  shows "joined = join '', '' (sort tags)"
    and "JStr ` set tags = (\<Union>post\<in>set posts. set (tags_of post))"
    and "list_all string_tags posts"
    and "\<forall>post\<in>set posts. py_iter (dict_get post ''tags'' (JArr [])) = Inr (tags_of post)"
proof -
  from assms obtain acc where
    c: "collect_tags posts [] = Inr acc" and t: "those_strs acc = Some tags" and
    j: "joined = join '', '' (sort tags)"
    by (auto simp: unique_tags_list_def split: sum.splits option.splits)
  from those_strs_Some [OF t] have a: "acc = map JStr tags" .
  from collect_tags_Inr [OF c] have
    s: "set acc = (\<Union>post\<in>set posts. set (tags_of post))" and
    p: "\<forall>post\<in>set posts. py_iter (dict_get post ''tags'' (JArr [])) = Inr (tags_of post)"
    by simp_all
  show "joined = join '', '' (sort tags)" by (rule j)
  show "JStr ` set tags = (\<Union>post\<in>set posts. set (tags_of post))"
    using s a by simp
  show "\<forall>post\<in>set posts. py_iter (dict_get post ''tags'' (JArr [])) = Inr (tags_of post)"
    by (rule p)
  have "string_tags post" if "post \<in> set posts" for post
  proof -
    from that s a have "set (tags_of post) \<subseteq> JStr ` set tags" by auto
    then have "\<forall>x\<in>set (tags_of post). str_of x \<noteq> None" by auto
    with p that show ?thesis by (simp add: string_tags_def list_all_iff)
  qed
  then show "list_all string_tags posts" by (simp add: list_all_iff)
qed

lemma string_tags_str_of:
  "string_tags post \<Longrightarrow> x \<in> set (tags_of post) \<Longrightarrow> str_of x \<noteq> None"
  by (cases "py_iter (dict_get post ''tags'' (JArr []))")
     (simp_all add: string_tags_def tags_of_def list_all_iff)

lemma unique_tags_list_Inl: "unique_tags_list posts = Inl e \<Longrightarrow> e = TypeError"
  by (auto simp: unique_tags_list_def split: sum.splits option.splits dest: collect_tags_Inl)

lemma unique_tags_list_strings:
  assumes "list_all string_tags posts"
  shows "\<exists>tags. unique_tags_list posts = Inr (tags, join '', '' (sort tags))"
proof -
  from collect_tags_strings [OF assms] obtain acc where c: "collect_tags posts [] = Inr acc"
    by blast
  from collect_tags_Inr [OF c] have s: "set acc = (\<Union>post\<in>set posts. set (tags_of post))"
    by simp
  have "str_of x \<noteq> None" if "x \<in> set acc" for x
  proof -
    from that s obtain post where m: "post \<in> set posts" and t: "x \<in> set (tags_of post)"
      by auto
    from assms m have "string_tags post" by (simp add: list_all_iff)
    from string_tags_str_of [OF this t] show ?thesis .
  qed
  then have "\<forall>x\<in>set acc. str_of x \<noteq> None" by blast
  from those_strs_all [OF this] obtain ss where "those_strs acc = Some ss" by blast
  with c show ?thesis by (simp add: unique_tags_list_def)
qed

lemma get_unified_tags_fst:
  "unique_tags_list posts = Inr (tags, joined) \<Longrightarrow>
   fst (get_unified_tags E posts w) =
     Inr (case fst (complete E (Unify_prompt joined) w) of
            Inl e \<Rightarrow> identity_mapping tags
          | Inr v \<Rightarrow> v)"
  by (cases "complete E (Unify_prompt joined) w")
     (simp add: get_unified_tags_def split: sum.splits)

lemma get_unified_tags_raises:
  "unique_tags_list posts = Inl e \<Longrightarrow> get_unified_tags E posts w = (Inl e, w)"
  by (simp add: get_unified_tags_def)

text \<open>
  The unification chain raises before the service, so \<open>get_unified_tags\<close> has one outcome
  on a batch whose tags it can collect: the identity mapping, after the message of the
  second \<^verbatim>\<open>except\<close> branch, with the service untouched.
\<close>

lemma get_unified_tags_fallback:
  "unique_tags_list posts = Inr (tags, joined) \<Longrightarrow>
   get_unified_tags E posts w =
     (Inr (identity_mapping tags), print Unexpected_error_unifying_tags w)"
  by (simp add: get_unified_tags_def complete_Unify)

lemma get_unified_tags_no_call:
  "calls (snd (get_unified_tags E posts w)) = calls w \<and>
   llm_state (snd (get_unified_tags E posts w)) = llm_state w"
proof (cases "unique_tags_list posts")
  case (Inl e)
  then show ?thesis by (simp add: get_unified_tags_raises)
next
  case (Inr r)
  obtain tags joined where "r = (tags, joined)" by (cases r)
  with Inr show ?thesis by (simp add: get_unified_tags_fallback)
qed

section \<open>Dictionaries and loops that may raise\<close>




lemma map_exn_map: "\<forall>x\<in>set xs. f x = Inr (g x) \<Longrightarrow> map_exn f xs = Inr (map g xs)"
  by (induction xs) simp_all


section \<open>The second loop\<close>

lemma unified_get_str:
  "str_of tag \<noteq> None \<Longrightarrow> unified_get (JObj m) tag = Inr (lookup_or_self m tag)"
  by (cases tag) (simp_all add: unified_get_def lookup_or_self_def)

lemma lookup_or_self_identity: "lookup_or_self (map (\<lambda>tag. (tag, JStr tag)) tags) x = x"
proof (cases x)
  case (JStr t)
  have "map_of (map (\<lambda>tag. (tag, JStr tag)) tags) t = Some v \<Longrightarrow> v = JStr t" for v
    by (induction tags) (auto split: if_splits)
  with JStr show ?thesis
    by (auto simp: lookup_or_self_def split: option.splits)
qed (simp_all add: lookup_or_self_def)

lemma map_lookup_or_self_identity:
  "map (lookup_or_self (map (\<lambda>tag. (tag, JStr tag)) tags)) xs = xs"
  by (rule map_idI) (rule lookup_or_self_identity)

lemma rewrite_tags_object:
  assumes "string_tags post"
  shows "rewrite_tags (JObj m) post =
           Inr (dict_set post ''tags'' (JArr (map (lookup_or_self m) (tags_of post))))"
proof -
  from assms obtain items where
    i: "py_iter (dict_get post ''tags'' (JArr [])) = Inr items" and
    s: "\<forall>x\<in>set items. str_of x \<noteq> None"
    by (cases "py_iter (dict_get post ''tags'' (JArr []))")
       (simp_all add: string_tags_def list_all_iff)
  from s have "\<forall>x\<in>set items. unified_get (JObj m) x = Inr (lookup_or_self m x)"
    by (simp add: unified_get_str)
  from map_exn_map [OF this] i show ?thesis
    by (simp add: rewrite_tags_def tags_of_def)
qed

lemma rewrite_loop_object:
  assumes "list_all string_tags posts"
  shows "map_exn (rewrite_tags (JObj m)) posts =
           Inr (map (\<lambda>post. dict_set post ''tags'' (JArr (map (lookup_or_self m) (tags_of post)))) posts)"
  using assms by (intro map_exn_map) (simp add: list_all_iff rewrite_tags_object)


lemma get_unified_tags_string_tags:
  assumes "fst (get_unified_tags E posts w) = Inr u"
  shows "list_all string_tags posts"
proof (cases "unique_tags_list posts")
  case (Inl e)
  with assms show ?thesis by (simp add: get_unified_tags_raises)
next
  case (Inr r)
  obtain tags joined where "r = (tags, joined)" by (cases r)
  with Inr unique_tags_list_Inr(3) [of posts tags joined] show ?thesis by simp
qed

lemma enriched_posts_object:
  assumes "enrich_loop E posts [] w0 = (Inr enriched, w)"
    and "fst (get_unified_tags E enriched w) = Inr (JObj m)"
  shows "fst (enriched_posts E posts w0) =
     Inr (map (\<lambda>post. dict_set post ''tags'' (JArr (map (lookup_or_self m) (tags_of post)))) enriched)"
proof -
  from get_unified_tags_string_tags [OF assms(2)] have "list_all string_tags enriched" .
  from rewrite_loop_object [OF this, of m] assms show ?thesis
    by (cases "get_unified_tags E enriched w") (simp add: enriched_posts_def)
qed

section \<open>What the first loop keeps of a post\<close>





section \<open>Running the model on concrete inputs\<close>

lemmas run_defs =
  process_posts_def enriched_posts_def get_unified_tags_def unique_tags_list_def
  extract_metadata_def complete_def chain_invoke_Metadata chain_invoke_Unify print_def truncate_post_def MAX_LENGTH_def
  fallback_record_def count_newlines_def unpack_merge_def dict_merge_def dict_set_def
  dict_get_def rewrite_tags_def unified_get_def identity_mapping_def
  stub_env_def canned_def echo_def down_def counting_env_def world0_def Let_def

section \<open>One record for each post with text\<close>

lemma enrich_loop_length:
  "enrich_loop E posts acc w = (Inr enriched, w') \<Longrightarrow>
   length enriched = length acc + length (filter (\<lambda>post. map_of post ''text'' \<noteq> None) posts)"
proof (induction posts arbitrary: acc w)
  case Nil
  then show ?case by simp
next
  case (Cons post posts)
  show ?case
  proof (cases "map_of post ''text''")
    case None
    with Cons.prems have "enrich_loop E posts acc w = (Inr enriched, w')" by simp
    from Cons.IH [OF this] None show ?thesis by simp
  next
    case (Some t)
    with Cons.prems obtain pm w1 where
      "enrich_loop E posts (acc @ [pm]) w1 = (Inr enriched, w')"
      by (auto simp: Let_def split: option.splits sum.splits prod.splits)
    from Cons.IH [OF this] Some show ?thesis by simp
  qed
qed

lemma map_exn_length: "map_exn f xs = Inr ys \<Longrightarrow> length ys = length xs"
  by (induction xs arbitrary: ys) (auto split: sum.splits)

lemma enriched_posts_length:
  assumes "fst (enriched_posts E posts w) = Inr final"
  shows "length final = length (filter (\<lambda>post. map_of post ''text'' \<noteq> None) posts)"
proof -
  from assms obtain enriched w1 u where
    l: "enrich_loop E posts [] w = (Inr enriched, w1)" and
    r: "map_exn (rewrite_tags u) enriched = Inr final"
    by (auto simp: enriched_posts_def split: prod.splits sum.splits)
  from enrich_loop_length [OF l] map_exn_length [OF r] show ?thesis by simp
qed

section \<open>The empty batch\<close>

lemma unique_tags_list_Nil: "unique_tags_list [] = Inr ([], [])"
  by (simp add: unique_tags_list_def)

lemma enriched_posts_Nil:
  "enriched_posts E [] w = (Inr [], print Unexpected_error_unifying_tags w)"
  by (simp add: enriched_posts_def get_unified_tags_fallback [OF unique_tags_list_Nil])

text \<open>
  C1. For the empty batch the batch handed to \<^verbatim>\<open>json.dump\<close> is empty and, when the write
  succeeds, \<open>process_posts\<close> returns with the empty batch in the output file and the
  messages of the failed unification and of the save printed. No call reaches the
  service: the list of calls and the state of the service are as before.
  \<open>extract_metadata\<close> is not run, and \<open>get_unified_tags\<close>, on this batch as on any other,
  leaves calls and service state as they were.
\<close>

theorem empty_batch_no_call:
  "enriched_posts E [] w = (Inr [], w\<lparr>printed := printed w @ [Unexpected_error_unifying_tags]\<rparr>) \<and>
   (json_dump E [] = None \<longrightarrow>
      process_posts E (Loaded []) w =
        (Inr (),
         w\<lparr>printed := printed w @ [Unexpected_error_unifying_tags, Successfully_saved 0],
           out_file := Some []\<rparr>)) \<and>
   calls (snd (process_posts E (Loaded []) w)) = calls w \<and>
   llm_state (snd (process_posts E (Loaded []) w)) = llm_state w \<and>
   calls (snd (get_unified_tags E posts w)) = calls w \<and>
   llm_state (snd (get_unified_tags E posts w)) = llm_state w"
proof -
  have a: "enriched_posts E [] w =
             (Inr [], w\<lparr>printed := printed w @ [Unexpected_error_unifying_tags]\<rparr>)"
    by (simp add: enriched_posts_Nil print_def)
  have b: "json_dump E [] = None \<longrightarrow>
      process_posts E (Loaded []) w =
        (Inr (),
         w\<lparr>printed := printed w @ [Unexpected_error_unifying_tags, Successfully_saved 0],
           out_file := Some []\<rparr>)"
    by (simp add: process_posts_def a print_def)
  have c: "calls (snd (process_posts E (Loaded []) w)) = calls w \<and>
           llm_state (snd (process_posts E (Loaded []) w)) = llm_state w"
    by (cases "json_dump E []") (simp_all add: process_posts_def a print_def)
  from a b c get_unified_tags_no_call [of E posts w] show ?thesis by simp
qed

theorem empty_batch_no_call_witness:
  "json_dump counting_env [] = None \<and>
   process_posts counting_env (Loaded [])
       \<lparr>llm_state = 0, calls = [], printed = [], out_file = None\<rparr> =
     (Inr (),
      \<lparr>llm_state = 0, calls = [],
       printed = [Unexpected_error_unifying_tags, Successfully_saved 0],
       out_file = Some []\<rparr>) \<and>
   process_posts counting_env (Loaded [[(''text'', JStr ''hi'')]])
       \<lparr>llm_state = 0, calls = [], printed = [], out_file = None\<rparr> =
     (Inr (),
      \<lparr>llm_state = 1, calls = [Metadata_prompt ''hi''],
       printed = [Unexpected_error_unifying_tags, Successfully_saved 1],
       out_file = Some [[(''text'', JStr ''hi''), (''tags'', JArr [])]]\<rparr>)"
proof -
  have h: "json_dump counting_env [] = None"
    by (simp add: counting_env_def)
  have one: "process_posts counting_env (Loaded [[(''text'', JStr ''hi'')]])
       \<lparr>llm_state = 0, calls = [], printed = [], out_file = None\<rparr> =
     (Inr (),
      \<lparr>llm_state = 1, calls = [Metadata_prompt ''hi''],
       printed = [Unexpected_error_unifying_tags, Successfully_saved 1],
       out_file = Some [[(''text'', JStr ''hi''), (''tags'', JArr [])]]\<rparr>)"
    by (simp add: run_defs)
  from empty_batch_no_call
         [of counting_env "\<lparr>llm_state = 0, calls = [], printed = [], out_file = None\<rparr>" "[]"] h
  have "process_posts counting_env (Loaded [])
       \<lparr>llm_state = 0, calls = [], printed = [], out_file = None\<rparr> =
     (Inr (),
      \<lparr>llm_state = 0, calls = [],
       printed = [Unexpected_error_unifying_tags, Successfully_saved 0],
       out_file = Some []\<rparr>)"
    by simp
  with h one show ?thesis by (intro conjI)
qed

section \<open>The fallback line count\<close>

text \<open>
  C2, as the code has it. When extraction fails, the fallback record's \<open>line_count\<close> is one
  more than the number of newline characters among the first 2000 characters of the text
  (the text that was sent, whose truncation marker has no newline). For a text of at most
  2000 characters that is the count of the whole text; newlines beyond the 2000th character
  are not counted.
\<close>

theorem fallback_line_count_of_truncated_text:
  "fst (complete E (Metadata_prompt (truncate_post text)) w) = Inl e \<Longrightarrow>
   fst (extract_metadata E text w) =
     Inr (JObj [(''line_count'', JNum (int (count_newlines (take MAX_LENGTH text)) + 1)),
                (''language'', JStr ''Unknown''),
                (''tags'', JArr [])]) \<and>
   (length text \<le> MAX_LENGTH \<longrightarrow> count_newlines (take MAX_LENGTH text) = count_newlines text)"
  by (simp add: extract_metadata_fst fallback_record_def count_newlines_truncate_post)

theorem fallback_line_count_of_truncated_text_witness:
  "fst (complete (stub_env down []) (Metadata_prompt (truncate_post [CHR ''a'', CHR 0x0A, CHR ''b'']))
         world0) = Inl (Other_exception 0) \<and>
   length [CHR ''a'', CHR 0x0A, CHR ''b''] \<le> MAX_LENGTH \<and>
   fst (extract_metadata (stub_env down []) [CHR ''a'', CHR 0x0A, CHR ''b''] world0) =
     Inr (JObj [(''line_count'', JNum 2), (''language'', JStr ''Unknown''), (''tags'', JArr [])])"
  using fallback_line_count_of_truncated_text
    [of "stub_env down []" "[CHR ''a'', CHR 0x0A, CHR ''b'']" world0 "Other_exception 0"]
  by (simp add: complete_def chain_invoke_Metadata stub_env_def down_def MAX_LENGTH_def
        count_newlines_def)

text \<open>
  C2 as stated fails on a text of 2000 letters followed by one newline: the text has one
  newline, so the claim gives 2, and the fallback record has \<open>line_count\<close> 1.
\<close>

theorem fallback_line_count_counterexample:
  "fst (extract_metadata (stub_env down []) (replicate 2000 (CHR ''a'') @ [CHR 0x0A]) world0) =
     Inr (JObj [(''line_count'', JNum 1), (''language'', JStr ''Unknown''), (''tags'', JArr [])]) \<and>
   int (count_newlines (replicate 2000 (CHR ''a'') @ [CHR 0x0A])) + 1 = 2"
proof -
  have "count_newlines (take MAX_LENGTH (replicate 2000 (CHR ''a'') @ [CHR 0x0A])) = 0"
    by (simp add: MAX_LENGTH_def count_newlines_def)
  moreover have "count_newlines (replicate 2000 (CHR ''a'') @ [CHR 0x0A]) = 1"
    by (simp add: count_newlines_def)
  ultimately show ?thesis
    by (simp add: extract_metadata_fst complete_def chain_invoke_Metadata stub_env_def down_def
          fallback_record_def count_newlines_truncate_post)
qed

section \<open>The original fields\<close>




section \<open>Extraction failure\<close>



section \<open>Unification failure\<close>

lemma distinct_set_update:
  "set_update acc items = Inr acc' \<Longrightarrow> distinct acc \<Longrightarrow> distinct acc'"
  by (induction items arbitrary: acc) (auto split: if_splits)

lemma distinct_collect_tags:
  "collect_tags posts acc = Inr acc' \<Longrightarrow> distinct acc \<Longrightarrow> distinct acc'"
  by (induction posts arbitrary: acc) (auto split: sum.splits dest: distinct_set_update)

lemma distinct_unique_tags_list:
  assumes "unique_tags_list posts = Inr (tags, joined)"
  shows "distinct tags"
proof -
  from assms obtain acc where
    c: "collect_tags posts [] = Inr acc" and t: "those_strs acc = Some tags"
    by (auto simp: unique_tags_list_def split: sum.splits option.splits)
  from distinct_collect_tags [OF c] have "distinct acc" by simp
  with those_strs_Some [OF t] show ?thesis by (simp add: distinct_map)
qed

text \<open>
  C5. Let the first loop have produced the records \<open>enriched\<close>, let their tags have been
  collected (\<open>tags\<close>: each tag of each record, once), and let the one unification call
  fail, in the chain or in the parser, with any exception. Then \<open>get_unified_tags\<close>
  returns the mapping whose keys are \<open>tags\<close> and that has every tag as its own value, and
  the batch handed to \<^verbatim>\<open>json.dump\<close> is \<open>enriched\<close> with every record's \<open>tags\<close> set to the
  sequence of its tags as they were.
\<close>

theorem unification_failure_keeps_tags:
  assumes "enrich_loop E posts [] w0 = (Inr enriched, w)"
    and "unique_tags_list enriched = Inr (tags, joined)"
    and "fst (complete E (Unify_prompt joined) w) = Inl e"
  shows "fst (get_unified_tags E enriched w) = Inr (JObj (map (\<lambda>tag. (tag, JStr tag)) tags)) \<and>
     JStr ` set tags = (\<Union>post\<in>set enriched. set (tags_of post)) \<and>
     distinct tags \<and>
     fst (enriched_posts E posts w0) =
       Inr (map (\<lambda>post. dict_set post ''tags'' (JArr (tags_of post))) enriched)"
proof -
  from get_unified_tags_fst [OF assms(2), of E w] assms(3)
  have "fst (get_unified_tags E enriched w) = Inr (identity_mapping tags)" by simp
  then have g: "fst (get_unified_tags E enriched w) =
                  Inr (JObj (map (\<lambda>tag. (tag, JStr tag)) tags))"
    by (simp add: identity_mapping_def)
  from enriched_posts_object [OF assms(1) g]
  have "fst (enriched_posts E posts w0) =
       Inr (map (\<lambda>post. dict_set post ''tags'' (JArr (tags_of post))) enriched)"
    by (simp add: map_lookup_or_self_identity)
  with g unique_tags_list_Inr(2) [OF assms(2)] distinct_unique_tags_list [OF assms(2)]
  show ?thesis by simp
qed

theorem unification_failure_keeps_tags_witness:
  "enrich_loop
     (stub_env (canned ''m'' ''u'')
        [(''m'', JObj [(''line_count'', JNum 1), (''language'', JStr ''English''),
                       (''tags'', JArr [JStr ''Jobseekers'', JStr ''Job Hunting''])]),
         (''u'', JObj [(''Jobseekers'', JStr ''Job Search''),
                       (''Job Hunting'', JStr ''Job Search'')])])
     [[(''text'', JStr ''hi'')]] [] world0 =
     (Inr [[(''text'', JStr ''hi''), (''line_count'', JNum 1), (''language'', JStr ''English''),
            (''tags'', JArr [JStr ''Jobseekers'', JStr ''Job Hunting''])]],
      world0\<lparr>calls := [Metadata_prompt ''hi'']\<rparr>) \<and>
   unique_tags_list
     [[(''text'', JStr ''hi''), (''line_count'', JNum 1), (''language'', JStr ''English''),
       (''tags'', JArr [JStr ''Jobseekers'', JStr ''Job Hunting''])]] =
     Inr ([''Job Hunting'', ''Jobseekers''], ''Job Hunting, Jobseekers'') \<and>
   fst (complete
          (stub_env (canned ''m'' ''u'')
             [(''m'', JObj [(''line_count'', JNum 1), (''language'', JStr ''English''),
                            (''tags'', JArr [JStr ''Jobseekers'', JStr ''Job Hunting''])]),
              (''u'', JObj [(''Jobseekers'', JStr ''Job Search''),
                            (''Job Hunting'', JStr ''Job Search'')])])
          (Unify_prompt ''Job Hunting, Jobseekers'') (world0\<lparr>calls := [Metadata_prompt ''hi'']\<rparr>)) =
     Inl KeyError \<and>
   fst (get_unified_tags
          (stub_env (canned ''m'' ''u'')
             [(''m'', JObj [(''line_count'', JNum 1), (''language'', JStr ''English''),
                            (''tags'', JArr [JStr ''Jobseekers'', JStr ''Job Hunting''])]),
              (''u'', JObj [(''Jobseekers'', JStr ''Job Search''),
                            (''Job Hunting'', JStr ''Job Search'')])])
          [[(''text'', JStr ''hi''), (''line_count'', JNum 1), (''language'', JStr ''English''),
            (''tags'', JArr [JStr ''Jobseekers'', JStr ''Job Hunting''])]]
          (world0\<lparr>calls := [Metadata_prompt ''hi'']\<rparr>)) =
     Inr (JObj [(''Job Hunting'', JStr ''Job Hunting''), (''Jobseekers'', JStr ''Jobseekers'')]) \<and>
   fst (enriched_posts
          (stub_env (canned ''m'' ''u'')
             [(''m'', JObj [(''line_count'', JNum 1), (''language'', JStr ''English''),
                            (''tags'', JArr [JStr ''Jobseekers'', JStr ''Job Hunting''])]),
              (''u'', JObj [(''Jobseekers'', JStr ''Job Search''),
                            (''Job Hunting'', JStr ''Job Search'')])])
          [[(''text'', JStr ''hi'')]] world0) =
     Inr [[(''text'', JStr ''hi''), (''line_count'', JNum 1), (''language'', JStr ''English''),
           (''tags'', JArr [JStr ''Jobseekers'', JStr ''Job Hunting''])]]"
proof -
  let ?E = "stub_env (canned ''m'' ''u'')
             [(''m'', JObj [(''line_count'', JNum 1), (''language'', JStr ''English''),
                            (''tags'', JArr [JStr ''Jobseekers'', JStr ''Job Hunting''])]),
              (''u'', JObj [(''Jobseekers'', JStr ''Job Search''),
                            (''Job Hunting'', JStr ''Job Search'')])]"
  let ?enriched = "[[(''text'', JStr ''hi''), (''line_count'', JNum 1),
                     (''language'', JStr ''English''),
                     (''tags'', JArr [JStr ''Jobseekers'', JStr ''Job Hunting''])]]"
  let ?w = "world0\<lparr>calls := [Metadata_prompt ''hi'']\<rparr>"
  have h1: "enrich_loop ?E [[(''text'', JStr ''hi'')]] [] world0 = (Inr ?enriched, ?w)"
    by (simp add: run_defs)
  have h2: "unique_tags_list ?enriched =
              Inr ([''Job Hunting'', ''Jobseekers''], ''Job Hunting, Jobseekers'')"
    by (simp add: run_defs)
  have h3: "fst (complete ?E (Unify_prompt ''Job Hunting, Jobseekers'') ?w) = Inl KeyError"
    by (simp add: complete_Unify)
  from unification_failure_keeps_tags [OF h1 h2 h3]
  have "fst (get_unified_tags ?E ?enriched ?w) =
          Inr (JObj [(''Job Hunting'', JStr ''Job Hunting''), (''Jobseekers'', JStr ''Jobseekers'')]) \<and>
        fst (enriched_posts ?E [[(''text'', JStr ''hi'')]] world0) = Inr ?enriched"
    by (simp add: tags_of_def dict_get_def dict_set_def)
  with h1 h2 h3 show ?thesis by (intro conjI) simp_all
qed

section \<open>Posts without text\<close>

text \<open>
  C6. A post without a \<open>text\<close> field changes nothing: the run on a batch that contains it,
  anywhere, is the run on the batch without it, in what it hands to \<^verbatim>\<open>json.dump\<close> or
  raises, in what \<open>process_posts\<close> returns, and in the world it leaves (calls, messages,
  output file). So the post is absent from the output, it does not abort the run, and
  the records of the other posts are what they are without it: when the run reaches
  \<^verbatim>\<open>json.dump\<close>, the batch has one record for each of the other posts that has a text.
\<close>

theorem textless_post_skipped:
  "map_of post ''text'' = None \<Longrightarrow>
   enriched_posts E (pre @ post # rest) w = enriched_posts E (pre @ rest) w \<and>
   process_posts E (Loaded (pre @ post # rest)) w = process_posts E (Loaded (pre @ rest)) w \<and>
   (\<forall>final. fst (enriched_posts E (pre @ post # rest) w) = Inr final \<longrightarrow>
      length final = length (filter (\<lambda>p. map_of p ''text'' \<noteq> None) (pre @ rest)))"
proof -
  assume n: "map_of post ''text'' = None"
  then have "enrich_loop E (pre @ post # rest) [] w = enrich_loop E (pre @ rest) [] w"
    by (simp add: enrich_loop_append [of E pre] split: prod.splits sum.splits)
  then have e: "enriched_posts E (pre @ post # rest) w = enriched_posts E (pre @ rest) w"
    by (simp add: enriched_posts_def)
  then have "process_posts E (Loaded (pre @ post # rest)) w = process_posts E (Loaded (pre @ rest)) w"
    by (simp add: process_posts_def)
  with e show ?thesis by (simp add: enriched_posts_length)
qed

theorem textless_post_skipped_witness:
  "map_of [(''id'', JNum 7)] ''text'' = None \<and>
   process_posts (stub_env down [])
     (Loaded ([[(''text'', JStr ''a'')]] @ [(''id'', JNum 7)] # [[(''text'', JStr ''b'')]])) world0 =
   process_posts (stub_env down [])
     (Loaded ([[(''text'', JStr ''a'')]] @ [[(''text'', JStr ''b'')]])) world0 \<and>
   out_file (snd (process_posts (stub_env down [])
     (Loaded ([[(''text'', JStr ''a'')]] @ [(''id'', JNum 7)] # [[(''text'', JStr ''b'')]])) world0)) =
   Some [[(''text'', JStr ''a''), (''line_count'', JNum 1), (''language'', JStr ''Unknown''),
          (''tags'', JArr [])],
         [(''text'', JStr ''b''), (''line_count'', JNum 1), (''language'', JStr ''Unknown''),
          (''tags'', JArr [])]]"
proof -
  have h: "map_of [(''id'', JNum 7)] ''text'' = None" by simp
  have "out_file (snd (process_posts (stub_env down [])
     (Loaded ([[(''text'', JStr ''a'')]] @ [[(''text'', JStr ''b'')]])) world0)) =
   Some [[(''text'', JStr ''a''), (''line_count'', JNum 1), (''language'', JStr ''Unknown''),
          (''tags'', JArr [])],
         [(''text'', JStr ''b''), (''line_count'', JNum 1), (''language'', JStr ''Unknown''),
          (''tags'', JArr [])]]"
    by (simp add: run_defs)
  with textless_post_skipped
         [OF h, of "stub_env down []" "[[(''text'', JStr ''a'')]]" "[[(''text'', JStr ''b'')]]" world0] h
  show ?thesis by simp
qed

section \<open>What escapes the two components\<close>

text \<open>
  C7, as the code has it. \<open>extract_metadata\<close> returns for every text and every behaviour
  of the service and the parser: the parsed value, or the fallback record when the call
  or the parser raised. \<open>get_unified_tags\<close> returns whenever the tags of every post are
  an iterable of strings: the parsed value, or the identity mapping over the distinct tags
  when the call or the parser raised. On any other batch it raises \<^verbatim>\<open>TypeError\<close> from its
  own statements before the \<^verbatim>\<open>try\<close>, without a call. No exception of the service or of
  the parser leaves either function.
\<close>

theorem service_failures_do_not_escape:
  "fst (extract_metadata E text w) =
     Inr (case fst (complete E (Metadata_prompt (truncate_post text)) w) of
            Inl e \<Rightarrow> fallback_record (truncate_post text)
          | Inr v \<Rightarrow> v) \<and>
   (list_all string_tags posts \<longrightarrow>
      (\<exists>tags. unique_tags_list posts = Inr (tags, join '', '' (sort tags)) \<and>
         fst (get_unified_tags E posts w) =
           Inr (case fst (complete E (Unify_prompt (join '', '' (sort tags))) w) of
                  Inl e \<Rightarrow> identity_mapping tags
                | Inr v \<Rightarrow> v))) \<and>
   (\<not> list_all string_tags posts \<longrightarrow> get_unified_tags E posts w = (Inl TypeError, w))"
proof (intro conjI impI)
  show "fst (extract_metadata E text w) =
     Inr (case fst (complete E (Metadata_prompt (truncate_post text)) w) of
            Inl e \<Rightarrow> fallback_record (truncate_post text)
          | Inr v \<Rightarrow> v)"
    by (rule extract_metadata_fst)
next
  assume "list_all string_tags posts"
  from unique_tags_list_strings [OF this] obtain tags where
    u: "unique_tags_list posts = Inr (tags, join '', '' (sort tags))" by blast
  from get_unified_tags_fst [OF u] u
  show "\<exists>tags. unique_tags_list posts = Inr (tags, join '', '' (sort tags)) \<and>
         fst (get_unified_tags E posts w) =
           Inr (case fst (complete E (Unify_prompt (join '', '' (sort tags))) w) of
                  Inl e \<Rightarrow> identity_mapping tags
                | Inr v \<Rightarrow> v)"
    by blast
next
  assume n: "\<not> list_all string_tags posts"
  show "get_unified_tags E posts w = (Inl TypeError, w)"
  proof (cases "unique_tags_list posts")
    case (Inl e)
    with unique_tags_list_Inl [OF Inl] show ?thesis
      by (simp add: get_unified_tags_raises)
  next
    case (Inr r)
    obtain tags joined where "r = (tags, joined)" by (cases r)
    with Inr unique_tags_list_Inr(3) [of posts tags joined] n show ?thesis by simp
  qed
qed

theorem service_failures_do_not_escape_witness:
  "list_all string_tags [[(''tags'', JArr [JStr ''Motivation''])]] \<and>
   fst (get_unified_tags (stub_env down []) [[(''tags'', JArr [JStr ''Motivation''])]] world0) =
     Inr (JObj [(''Motivation'', JStr ''Motivation'')]) \<and>
   fst (extract_metadata (stub_env down []) ''hi'' world0) =
     Inr (JObj [(''line_count'', JNum 1), (''language'', JStr ''Unknown''), (''tags'', JArr [])]) \<and>
   \<not> list_all string_tags [[(''tags'', JNum 5)]] \<and>
   get_unified_tags (stub_env down []) [[(''tags'', JNum 5)]] world0 = (Inl TypeError, world0)"
proof -
  have h1: "list_all string_tags [[(''tags'', JArr [JStr ''Motivation''])]]"
    by (simp add: string_tags_def dict_get_def)
  have h2: "\<not> list_all string_tags [[(''tags'', JNum 5)]]"
    by (simp add: string_tags_def dict_get_def)
  have u: "unique_tags_list [[(''tags'', JArr [JStr ''Motivation''])]] = Inr (tags, j) \<Longrightarrow>
             tags = [''Motivation''] \<and> j = ''Motivation''" for tags j
    by (auto simp: unique_tags_list_def dict_get_def)
  from service_failures_do_not_escape
         [of "stub_env down []" "''hi''" world0 "[[(''tags'', JArr [JStr ''Motivation''])]]"] h1
  have a: "fst (get_unified_tags (stub_env down []) [[(''tags'', JArr [JStr ''Motivation''])]] world0) =
             Inr (JObj [(''Motivation'', JStr ''Motivation'')]) \<and>
           fst (extract_metadata (stub_env down []) ''hi'' world0) =
             Inr (JObj [(''line_count'', JNum 1), (''language'', JStr ''Unknown''),
                        (''tags'', JArr [])])"
    by (auto dest!: u simp: run_defs)
  from service_failures_do_not_escape
         [of "stub_env down []" "''hi''" world0 "[[(''tags'', JNum 5)]]"] h2
  have b: "get_unified_tags (stub_env down []) [[(''tags'', JNum 5)]] world0 = (Inl TypeError, world0)"
    by simp
  from h1 h2 a b show ?thesis by (intro conjI) simp_all
qed

text \<open>
  C7 as stated fails for \<open>get_unified_tags\<close>: on a record whose tags are the list with
  the number 1, as the first loop makes it from a response with such tags, it raises
  \<^verbatim>\<open>TypeError\<close>, while the service answers every call.
\<close>

theorem non_string_tag_escapes_counterexample:
  "get_unified_tags (stub_env (canned ''m'' ''u'') [(''m'', JObj []), (''u'', JObj [])])
     [[(''text'', JStr ''hi''), (''line_count'', JNum 1), (''language'', JStr ''English''),
       (''tags'', JArr [JNum 1])]] world0 =
   (Inl TypeError, world0)"
  by (simp add: run_defs)

section \<open>The tag rewrite\<close>

text \<open>
  C8. The second loop, run with any mapping \<open>m\<close> on records whose tags are strings,
  raises for no tag: it sets every record's \<open>tags\<close> to the sequence of its tags, each
  replaced by its entry in \<open>m\<close> and left as it is where \<open>m\<close> has no entry for it. And
  whenever the first loop has produced the records \<open>enriched\<close> and \<open>get_unified_tags\<close> has
  returned, the tags of the records are strings, the value returned is a mapping, and the
  batch handed to \<^verbatim>\<open>json.dump\<close> is \<open>enriched\<close> rewritten in that way with that mapping.
\<close>

theorem tag_rewrite_total:
  "(list_all string_tags enriched \<longrightarrow>
      map_exn (rewrite_tags (JObj m)) enriched =
        Inr (map (\<lambda>post. dict_set post ''tags'' (JArr (map (lookup_or_self m) (tags_of post))))
               enriched)) \<and>
   (enrich_loop E posts [] w0 = (Inr enriched, w) \<and>
    fst (get_unified_tags E enriched w) = Inr u \<longrightarrow>
      list_all string_tags enriched \<and>
      (\<exists>m'. u = JObj m' \<and>
         fst (enriched_posts E posts w0) =
           Inr (map (\<lambda>post. dict_set post ''tags''
                              (JArr (map (lookup_or_self m') (tags_of post))))
                  enriched)))"
proof (intro conjI impI)
  assume "list_all string_tags enriched"
  then show "map_exn (rewrite_tags (JObj m)) enriched =
        Inr (map (\<lambda>post. dict_set post ''tags'' (JArr (map (lookup_or_self m) (tags_of post))))
               enriched)"
    by (rule rewrite_loop_object)
next
  assume "enrich_loop E posts [] w0 = (Inr enriched, w) \<and>
          fst (get_unified_tags E enriched w) = Inr u"
  then show "list_all string_tags enriched"
    by (blast intro: get_unified_tags_string_tags)
next
  assume a: "enrich_loop E posts [] w0 = (Inr enriched, w) \<and>
             fst (get_unified_tags E enriched w) = Inr u"
  then have l: "enrich_loop E posts [] w0 = (Inr enriched, w)"
    and g: "fst (get_unified_tags E enriched w) = Inr u"
    by simp_all
  obtain tags joined where t: "unique_tags_list enriched = Inr (tags, joined)"
  proof (cases "unique_tags_list enriched")
    case (Inl e)
    with g show ?thesis by (simp add: get_unified_tags_raises)
  next
    case (Inr r)
    with that show ?thesis by (cases r) simp
  qed
  from get_unified_tags_fallback [OF t, of E w] g
  have u: "u = JObj (map (\<lambda>tag. (tag, JStr tag)) tags)"
    by (simp add: identity_mapping_def)
  with g have "fst (get_unified_tags E enriched w) = Inr (JObj (map (\<lambda>tag. (tag, JStr tag)) tags))"
    by simp
  from enriched_posts_object [OF l this] u
  show "\<exists>m'. u = JObj m' \<and>
         fst (enriched_posts E posts w0) =
           Inr (map (\<lambda>post. dict_set post ''tags''
                              (JArr (map (lookup_or_self m') (tags_of post))))
                  enriched)"
    by blast
qed

theorem tag_rewrite_total_witness:
  "list_all string_tags
     [[(''text'', JStr ''p1''), (''tags'', JArr [JStr ''Jobseekers'', JStr ''Python''])],
      [(''text'', JStr ''p2''), (''tags'', JArr [JStr ''Job Hunting''])],
      [(''text'', JStr ''p3'')]] \<and>
   map_exn
     (rewrite_tags
        (JObj [(''Jobseekers'', JStr ''Job Search''), (''Job Hunting'', JStr ''Job Search'')]))
     [[(''text'', JStr ''p1''), (''tags'', JArr [JStr ''Jobseekers'', JStr ''Python''])],
      [(''text'', JStr ''p2''), (''tags'', JArr [JStr ''Job Hunting''])],
      [(''text'', JStr ''p3'')]] =
     Inr [[(''text'', JStr ''p1''), (''tags'', JArr [JStr ''Job Search'', JStr ''Python''])],
          [(''text'', JStr ''p2''), (''tags'', JArr [JStr ''Job Search''])],
          [(''text'', JStr ''p3''), (''tags'', JArr [])]] \<and>
   enrich_loop
     (stub_env (echo ''u'') [(''p1'', JObj [(''tags'', JArr [JStr ''Jobseekers'', JStr ''Python''])])])
     [[(''text'', JStr ''p1'')]] [] world0 =
     (Inr [[(''text'', JStr ''p1''), (''tags'', JArr [JStr ''Jobseekers'', JStr ''Python''])]],
      world0\<lparr>calls := [Metadata_prompt ''p1'']\<rparr>) \<and>
   fst (get_unified_tags
          (stub_env (echo ''u'') [(''p1'', JObj [(''tags'', JArr [JStr ''Jobseekers'', JStr ''Python''])])])
          [[(''text'', JStr ''p1''), (''tags'', JArr [JStr ''Jobseekers'', JStr ''Python''])]]
          (world0\<lparr>calls := [Metadata_prompt ''p1'']\<rparr>)) =
     Inr (JObj [(''Python'', JStr ''Python''), (''Jobseekers'', JStr ''Jobseekers'')]) \<and>
   fst (enriched_posts
          (stub_env (echo ''u'') [(''p1'', JObj [(''tags'', JArr [JStr ''Jobseekers'', JStr ''Python''])])])
          [[(''text'', JStr ''p1'')]] world0) =
     Inr [[(''text'', JStr ''p1''), (''tags'', JArr [JStr ''Jobseekers'', JStr ''Python''])]]"
proof -
  let ?E = "stub_env (echo ''u'')
              [(''p1'', JObj [(''tags'', JArr [JStr ''Jobseekers'', JStr ''Python''])])]"
  let ?enriched = "[[(''text'', JStr ''p1''), (''tags'', JArr [JStr ''Jobseekers'', JStr ''Python''])]]"
  let ?w = "world0\<lparr>calls := [Metadata_prompt ''p1'']\<rparr>"
  let ?records = "[[(''text'', JStr ''p1''), (''tags'', JArr [JStr ''Jobseekers'', JStr ''Python''])],
      [(''text'', JStr ''p2''), (''tags'', JArr [JStr ''Job Hunting''])],
      [(''text'', JStr ''p3'')]]"
  let ?m = "[(''Jobseekers'', JStr ''Job Search''), (''Job Hunting'', JStr ''Job Search'')]"
  have h0: "list_all string_tags ?records"
    by (simp add: string_tags_def dict_get_def)
  from tag_rewrite_total [of ?records ?m ?E "[]" world0 world0 JNull] h0
  have a: "map_exn (rewrite_tags (JObj ?m)) ?records =
     Inr [[(''text'', JStr ''p1''), (''tags'', JArr [JStr ''Job Search'', JStr ''Python''])],
          [(''text'', JStr ''p2''), (''tags'', JArr [JStr ''Job Search''])],
          [(''text'', JStr ''p3''), (''tags'', JArr [])]]"
    by (simp add: tags_of_def lookup_or_self_def dict_get_def dict_set_def)
  have h1: "enrich_loop ?E [[(''text'', JStr ''p1'')]] [] world0 = (Inr ?enriched, ?w)"
    by (simp add: run_defs)
  have h2: "fst (get_unified_tags ?E ?enriched ?w) =
              Inr (JObj [(''Python'', JStr ''Python''), (''Jobseekers'', JStr ''Jobseekers'')])"
    by (simp add: run_defs)
  from tag_rewrite_total
         [of ?enriched ?m ?E "[[(''text'', JStr ''p1'')]]" world0 ?w
             "JObj [(''Python'', JStr ''Python''), (''Jobseekers'', JStr ''Jobseekers'')]"]
       h1 h2
  have b: "fst (enriched_posts ?E [[(''text'', JStr ''p1'')]] world0) = Inr ?enriched"
    by (simp add: tags_of_def lookup_or_self_def dict_get_def dict_set_def)
  from h0 a h1 h2 b show ?thesis by (intro conjI)
qed

section \<open>A response that is not an object\<close>

text \<open>
  C9. Let the posts before a post have been processed without an exception, and let the
  response for the post parse to a value that is not an object. Then \<open>extract_metadata\<close>
  returns that value, not the fallback record; merging it into the post raises
  \<^verbatim>\<open>TypeError\<close>, which leaves \<open>process_posts\<close>; and the output file is not written.
\<close>

theorem non_object_metadata_aborts_run:
  assumes "map_of post ''text'' = Some (JStr s)"
    and "fst (complete E (Metadata_prompt (truncate_post (fix_text E s))) w) = Inr v"
    and "\<not> is_object v"
    and "enrich_loop E pre [] w0 = (Inr acc, w)"
  shows "fst (extract_metadata E (fix_text E s) w) = Inr v \<and>
         fst (process_posts E (Loaded (pre @ post # rest)) w0) = Inl TypeError \<and>
         out_file (snd (process_posts E (Loaded (pre @ post # rest)) w0)) = out_file w0"
proof -
  have x: "fst (extract_metadata E (fix_text E s) w) = Inr v"
    using assms(2) by (simp add: extract_metadata_fst)
  obtain w' where x': "extract_metadata E (fix_text E s) w = (Inr v, w')"
    using x by (cases "extract_metadata E (fix_text E s) w") simp
  have "enrich_loop E (post # rest) acc w = (Inl TypeError, w')"
    using assms(1,3) x' by (simp add: unpack_merge_not_object)
  with assms(4) have l: "enrich_loop E (pre @ post # rest) [] w0 = (Inl TypeError, w')"
    by (simp add: enrich_loop_append [of E pre])
  from out_file_enrich_loop [of E "pre @ post # rest" "[]" w0] l
  have "out_file w' = out_file w0" by simp
  with l x show ?thesis
    by (simp add: process_posts_def enriched_posts_def)
qed

theorem non_object_metadata_aborts_run_witness:
  "map_of [(''text'', JStr ''p2'')] ''text'' = Some (JStr ''p2'') \<and>
   fst (complete
          (stub_env (echo ''u'') [(''p1'', JObj [(''tags'', JArr [])]), (''p2'', JArr [])])
          (Metadata_prompt
             (truncate_post
                (fix_text (stub_env (echo ''u'') [(''p1'', JObj [(''tags'', JArr [])]), (''p2'', JArr [])])
                   ''p2'')))
          (world0\<lparr>calls := [Metadata_prompt ''p1'']\<rparr>)) = Inr (JArr []) \<and>
   \<not> is_object (JArr []) \<and>
   enrich_loop (stub_env (echo ''u'') [(''p1'', JObj [(''tags'', JArr [])]), (''p2'', JArr [])])
     [[(''text'', JStr ''p1'')]] [] world0 =
     (Inr [[(''text'', JStr ''p1''), (''tags'', JArr [])]], world0\<lparr>calls := [Metadata_prompt ''p1'']\<rparr>) \<and>
   process_posts (stub_env (echo ''u'') [(''p1'', JObj [(''tags'', JArr [])]), (''p2'', JArr [])])
     (Loaded ([[(''text'', JStr ''p1'')]] @ [(''text'', JStr ''p2'')] # [[(''text'', JStr ''p3'')]]))
     world0 =
     (Inl TypeError, world0\<lparr>calls := [Metadata_prompt ''p1'', Metadata_prompt ''p2'']\<rparr>)"
proof -
  let ?E = "stub_env (echo ''u'') [(''p1'', JObj [(''tags'', JArr [])]), (''p2'', JArr [])]"
  let ?w = "world0\<lparr>calls := [Metadata_prompt ''p1'']\<rparr>"
  have h1: "map_of [(''text'', JStr ''p2'')] ''text'' = Some (JStr ''p2'')" by simp
  have h2: "fst (complete ?E (Metadata_prompt (truncate_post (fix_text ?E ''p2''))) ?w) =
              Inr (JArr [])"
    by (simp add: run_defs)
  have h3: "\<not> is_object (JArr [])" by (simp add: is_object_def)
  have h4: "enrich_loop ?E [[(''text'', JStr ''p1'')]] [] world0 =
              (Inr [[(''text'', JStr ''p1''), (''tags'', JArr [])]], ?w)"
    by (simp add: run_defs)
  have r: "snd (process_posts ?E
     (Loaded ([[(''text'', JStr ''p1'')]] @ [(''text'', JStr ''p2'')] # [[(''text'', JStr ''p3'')]]))
     world0) = world0\<lparr>calls := [Metadata_prompt ''p1'', Metadata_prompt ''p2'']\<rparr>"
    by (simp add: run_defs)
  from non_object_metadata_aborts_run [OF h1 h2 h3 h4, of "[[(''text'', JStr ''p3'')]]"]
  have "fst (process_posts ?E
     (Loaded ([[(''text'', JStr ''p1'')]] @ [(''text'', JStr ''p2'')] # [[(''text'', JStr ''p3'')]]))
     world0) = Inl TypeError"
    by simp
  with r have "process_posts ?E
     (Loaded ([[(''text'', JStr ''p1'')]] @ [(''text'', JStr ''p2'')] # [[(''text'', JStr ''p3'')]]))
     world0 = (Inl TypeError, world0\<lparr>calls := [Metadata_prompt ''p1'', Metadata_prompt ''p2'']\<rparr>)"
    by (simp add: prod_eq_iff)
  with h1 h2 h3 h4 show ?thesis by (intro conjI)
qed

section \<open>Loading the raw file\<close>

text \<open>
  C10. When loading the raw file raises \<^verbatim>\<open>UnicodeDecodeError\<close> or \<^verbatim>\<open>JSONDecodeError\<close>,
  \<open>process_posts\<close> returns, and the world differs from the one before in the printed
  messages alone, which have the diagnostic of that error at their end: no call was
  issued and no file written. Any other exception raised while loading (a missing file,
  say) escapes \<open>process_posts\<close>, with nothing printed and the world as it was.
\<close>

theorem load_errors_caught_or_propagated:
  "process_posts E (Load_raises UnicodeDecodeError) w =
     (Inr (), w\<lparr>printed := printed w @ [Unicode_decode_error]\<rparr>) \<and>
   process_posts E (Load_raises JSONDecodeError) w =
     (Inr (), w\<lparr>printed := printed w @ [JSON_decode_error]\<rparr>) \<and>
   (e \<noteq> UnicodeDecodeError \<and> e \<noteq> JSONDecodeError \<longrightarrow>
      process_posts E (Load_raises e) w = (Inl e, w))"
  by (simp add: process_posts_def print_def)

theorem load_errors_caught_or_propagated_witness:
  "process_posts counting_env (Load_raises UnicodeDecodeError)
       \<lparr>llm_state = 0, calls = [], printed = [], out_file = None\<rparr> =
     (Inr (), \<lparr>llm_state = 0, calls = [], printed = [Unicode_decode_error], out_file = None\<rparr>) \<and>
   process_posts counting_env (Load_raises JSONDecodeError)
       \<lparr>llm_state = 0, calls = [], printed = [], out_file = None\<rparr> =
     (Inr (), \<lparr>llm_state = 0, calls = [], printed = [JSON_decode_error], out_file = None\<rparr>) \<and>
   FileNotFoundError \<noteq> UnicodeDecodeError \<and> FileNotFoundError \<noteq> JSONDecodeError \<and>
   process_posts counting_env (Load_raises FileNotFoundError)
       \<lparr>llm_state = 0, calls = [], printed = [], out_file = None\<rparr> =
     (Inl FileNotFoundError, \<lparr>llm_state = 0, calls = [], printed = [], out_file = None\<rparr>)"
  using load_errors_caught_or_propagated
          [of counting_env "\<lparr>llm_state = 0, calls = [], printed = [], out_file = None\<rparr>"
              FileNotFoundError]
  by simp

end
